theory Spec2Isabelle
  imports Main
begin

section \<open>Object factory: playwright/object_factory.py\<close>

text \<open>
  The classes the factory instantiates. Seventeen of them are imported from the
  sibling modules of the package, \<open>DummyObject\<close> is declared in the module itself
  (lines 35 to 38) and only forwards its three arguments to \<open>ChannelOwner\<close>.
\<close>

datatype proxy_class =
    BindingCall | Browser | BrowserServer | BrowserType | BrowserContext
  | ConsoleMessage | Dialog | Download | ElementHandle | Frame | JSHandle
  | Page | Playwright | Request | Response | Route | Worker | Selectors
  | DummyObject

text \<open>
  An instance is recorded by the constructor call that made it: the class and the
  three arguments \<open>(scope, guid, initializer)\<close>. The factory never looks into the
  scope or the initializer, so both stay type variables.
\<close>

record ('s, 'i) remote_object =
  cls :: proxy_class
  scope :: 's
  guid :: string
  initializer :: 'i

definition new_object :: "proxy_class \<Rightarrow> 's \<Rightarrow> string \<Rightarrow> 'i \<Rightarrow> ('s, 'i) remote_object" where
  "new_object c sc g ini = \<lparr>cls = c, scope = sc, guid = g, initializer = ini\<rparr>"

text \<open>
  \<open>create_remote_object\<close>, lines 40 to 79: a chain of eighteen \<open>if type == "..."\<close>
  tests in the order of the source, each returning at once, and the final
  \<open>return DummyObject(scope, guid, initializer)\<close>. Python's \<open>==\<close> on \<open>str\<close> is
  equality of the character sequences.
\<close>

definition create_remote_object :: "'s \<Rightarrow> string \<Rightarrow> string \<Rightarrow> 'i \<Rightarrow> ('s, 'i) remote_object" where
  "create_remote_object sc ty g ini =
    (if ty = ''BindingCall'' then new_object BindingCall sc g ini
     else if ty = ''Browser'' then new_object Browser sc g ini
     else if ty = ''BrowserServer'' then new_object BrowserServer sc g ini
     else if ty = ''BrowserType'' then new_object BrowserType sc g ini
     else if ty = ''BrowserContext'' then new_object BrowserContext sc g ini
     else if ty = ''ConsoleMessage'' then new_object ConsoleMessage sc g ini
     else if ty = ''Dialog'' then new_object Dialog sc g ini
     else if ty = ''Download'' then new_object Download sc g ini
     else if ty = ''ElementHandle'' then new_object ElementHandle sc g ini
     else if ty = ''Frame'' then new_object Frame sc g ini
     else if ty = ''JSHandle'' then new_object JSHandle sc g ini
     else if ty = ''Page'' then new_object Page sc g ini
     else if ty = ''Playwright'' then new_object Playwright sc g ini
     else if ty = ''Request'' then new_object Request sc g ini
     else if ty = ''Response'' then new_object Response sc g ini
     else if ty = ''Route'' then new_object Route sc g ini
     else if ty = ''Worker'' then new_object Worker sc g ini
     else if ty = ''Selectors'' then new_object Selectors sc g ini
     else new_object DummyObject sc g ini)"

text \<open>The name under which each class is declared in the package.\<close>

fun class_name :: "proxy_class \<Rightarrow> string" where
  "class_name BindingCall = ''BindingCall''"
| "class_name Browser = ''Browser''"
| "class_name BrowserServer = ''BrowserServer''"
| "class_name BrowserType = ''BrowserType''"
| "class_name BrowserContext = ''BrowserContext''"
| "class_name ConsoleMessage = ''ConsoleMessage''"
| "class_name Dialog = ''Dialog''"
| "class_name Download = ''Download''"
| "class_name ElementHandle = ''ElementHandle''"
| "class_name Frame = ''Frame''"
| "class_name JSHandle = ''JSHandle''"
| "class_name Page = ''Page''"
| "class_name Playwright = ''Playwright''"
| "class_name Request = ''Request''"
| "class_name Response = ''Response''"
| "class_name Route = ''Route''"
| "class_name Worker = ''Worker''"
| "class_name Selectors = ''Selectors''"
| "class_name DummyObject = ''DummyObject''"

text \<open>The typed proxy classes, and the eighteen type tags as the claims list them.\<close>

definition typed_classes :: "proxy_class list" where
  "typed_classes =
    [BindingCall, Browser, BrowserServer, BrowserType, BrowserContext, ConsoleMessage,
     Dialog, Download, ElementHandle, Frame, JSHandle, Page, Playwright, Request,
     Response, Route, Worker, Selectors]"

definition recognized_tags :: "string list" where
  "recognized_tags =
    [''BindingCall'', ''Browser'', ''BrowserServer'', ''BrowserType'', ''BrowserContext'',
     ''ConsoleMessage'', ''Dialog'', ''Download'', ''ElementHandle'', ''Frame'', ''JSHandle'',
     ''Page'', ''Playwright'', ''Request'', ''Response'', ''Route'', ''Worker'', ''Selectors'']"

subsection \<open>The factory with its constructors as a parameter\<close>

text \<open>
  The seventeen typed classes are imported from modules that are not among the sources
  (lines 17 to 32), and \<open>DummyObject.__init__\<close> hands its three arguments on to
  \<open>ChannelOwner.__init__\<close>, which is imported as well. What a constructor call yields is
  therefore a parameter here: \<open>ctor c scope guid initializer\<close> is either the new object
  (\<open>Inr\<close>) or the exception the constructor raises (\<open>Inl\<close>). The factory makes the call
  in a \<open>return\<close> statement outside any \<open>try\<close>, so its own outcome is the outcome of that
  call. The eighteen tests and the final \<open>return\<close> are those of lines 43 to 79, in order.
\<close>

definition create_remote_object_with ::
  "(proxy_class \<Rightarrow> 's \<Rightarrow> string \<Rightarrow> 'i \<Rightarrow> 'e + 'o) \<Rightarrow> 's \<Rightarrow> string \<Rightarrow> string \<Rightarrow> 'i \<Rightarrow> 'e + 'o" where
  "create_remote_object_with ctor sc ty g ini =
    (if ty = ''BindingCall'' then ctor BindingCall sc g ini
     else if ty = ''Browser'' then ctor Browser sc g ini
     else if ty = ''BrowserServer'' then ctor BrowserServer sc g ini
     else if ty = ''BrowserType'' then ctor BrowserType sc g ini
     else if ty = ''BrowserContext'' then ctor BrowserContext sc g ini
     else if ty = ''ConsoleMessage'' then ctor ConsoleMessage sc g ini
     else if ty = ''Dialog'' then ctor Dialog sc g ini
     else if ty = ''Download'' then ctor Download sc g ini
     else if ty = ''ElementHandle'' then ctor ElementHandle sc g ini
     else if ty = ''Frame'' then ctor Frame sc g ini
     else if ty = ''JSHandle'' then ctor JSHandle sc g ini
     else if ty = ''Page'' then ctor Page sc g ini
     else if ty = ''Playwright'' then ctor Playwright sc g ini
     else if ty = ''Request'' then ctor Request sc g ini
     else if ty = ''Response'' then ctor Response sc g ini
     else if ty = ''Route'' then ctor Route sc g ini
     else if ty = ''Worker'' then ctor Worker sc g ini
     else if ty = ''Selectors'' then ctor Selectors sc g ini
     else ctor DummyObject sc g ini)"

text \<open>
  Two values of the parameter. With \<open>recording_ctor\<close> no constructor raises and an
  instance is the record of its constructor call, as in \<open>create_remote_object\<close> above.
  With \<open>key_reading_ctor\<close> the constructor of \<open>Page\<close> reads
  \<open>initializer["mainFrame"]\<close>, on which Python raises \<open>KeyError\<close> when the key is
  absent; the initializer is a list of (key, value) pairs.
\<close>

datatype py_error = KeyError string

definition recording_ctor ::
  "proxy_class \<Rightarrow> 's \<Rightarrow> string \<Rightarrow> 'i \<Rightarrow> py_error + ('s, 'i) remote_object" where
  "recording_ctor c sc g ini = Inr (new_object c sc g ini)"


section \<open>Properties of the object factory\<close>


lemma create_typed:
  "c \<in> set typed_classes \<Longrightarrow> create_remote_object sc (class_name c) g ini = new_object c sc g ini"
  by (cases c) (simp_all add: typed_classes_def create_remote_object_def)

lemma create_default:
  "ty \<notin> set recognized_tags \<Longrightarrow> create_remote_object sc ty g ini = new_object DummyObject sc g ini"
  by (simp add: recognized_tags_def create_remote_object_def)




lemma create_with_recording_ctor:
  "create_remote_object_with recording_ctor sc ty g ini = Inr (create_remote_object sc ty g ini)"
  by (simp add: create_remote_object_with_def create_remote_object_def recording_ctor_def)




text \<open>
  Claim C6, as the code has it: for a type string outside the eighteen tags the factory
  returns \<open>DummyObject(scope, guid, initializer)\<close>. The type string is not among the
  constructor's arguments, so two unrecognized type strings with the same scope, guid
  and initializer yield identically constructed placeholders.
\<close>

theorem placeholder_independent_of_type_tag:
  "ty \<notin> set recognized_tags \<Longrightarrow> ty' \<notin> set recognized_tags \<Longrightarrow>
     create_remote_object sc ty g ini = create_remote_object sc ty' g ini
     \<and> create_remote_object sc ty g ini = new_object DummyObject sc g ini"
  by (simp add: create_default)

theorem placeholder_independent_of_type_tag_witness:
  "create_remote_object ''scope'' ''Artifact'' ''obj@7'' [(''k'', ''v'')]
     = create_remote_object ''scope'' ''Stream'' ''obj@7'' [(''k'', ''v'')]
   \<and> cls (create_remote_object ''scope'' ''Artifact'' ''obj@7'' [(''k'', ''v'')]) = DummyObject"
proof -
  have a: "''Artifact'' \<notin> set recognized_tags" and b: "''Stream'' \<notin> set recognized_tags"
    by (simp_all add: recognized_tags_def)
  note e = placeholder_independent_of_type_tag
    [OF a b, of "''scope''" "''obj@7''" "[(''k'', ''v'')]"]
  from e [THEN conjunct2]
  have c: "cls (create_remote_object ''scope'' ''Artifact'' ''obj@7'' [(''k'', ''v'')]) = DummyObject"
    by (simp add: new_object_def)
  from e [THEN conjunct1] c show ?thesis by (rule conjI)
qed

text \<open>
  Claim C6 as stated fails: \<open>Video\<close> and \<open>Tracing\<close> are two different type strings
  outside the eighteen tags, and with the same scope, guid and initializer the factory
  returns one and the same placeholder for both, so the type string cannot be read back
  from the placeholder.
\<close>

theorem placeholder_drops_type_tag_counterexample:
  "''Video'' \<notin> set recognized_tags \<and> ''Tracing'' \<notin> set recognized_tags
   \<and> ''Video'' \<noteq> ''Tracing''
   \<and> create_remote_object ''scope'' ''Video'' ''obj@1'' [(''k'', ''v'')]
     = create_remote_object ''scope'' ''Tracing'' ''obj@1'' [(''k'', ''v'')]"
  by (simp add: recognized_tags_def create_remote_object_def)

text \<open>
  Claim C9: the tests on the type tag are exact string equalities. The factory returns
  the \<open>DummyObject\<close> placeholder exactly when the type string is none of the eighteen
  tags, character for character; a string that differs from a tag in case, by a
  trailing blank or by being empty is such a string.
\<close>

theorem create_remote_object_exact_tag_match:
  "(cls (create_remote_object sc ty g ini) = DummyObject) = (ty \<notin> set recognized_tags)"
  by (simp add: create_remote_object_def new_object_def recognized_tags_def)

theorem create_remote_object_exact_tag_match_witness:
  "cls (create_remote_object ''s'' ''page'' ''g'' ()) = DummyObject
   \<and> cls (create_remote_object ''s'' ''BROWSER'' ''g'' ()) = DummyObject
   \<and> cls (create_remote_object ''s'' ''Request '' ''g'' ()) = DummyObject
   \<and> cls (create_remote_object ''s'' [] ''g'' ()) = DummyObject
   \<and> cls (create_remote_object ''s'' ''Page'' ''g'' ()) \<noteq> DummyObject"
proof -
  have n: "''page'' \<notin> set recognized_tags" "''BROWSER'' \<notin> set recognized_tags"
    "''Request '' \<notin> set recognized_tags" "[] \<notin> set recognized_tags"
    and y: "''Page'' \<in> set recognized_tags"
    by (simp_all add: recognized_tags_def)
  show ?thesis
    using n y
      create_remote_object_exact_tag_match [of "''s''" "''page''" "''g''" "()"]
      create_remote_object_exact_tag_match [of "''s''" "''BROWSER''" "''g''" "()"]
      create_remote_object_exact_tag_match [of "''s''" "''Request ''" "''g''" "()"]
      create_remote_object_exact_tag_match [of "''s''" "[]" "''g''" "()"]
      create_remote_object_exact_tag_match [of "''s''" "''Page''" "''g''" "()"]
    by blast
qed

end
